theory Spec2Isabelle
  imports Main "HOL-Library.Sublist"
begin

section \<open>Library values used by \<open>api/labels.go\<close>\<close>

text \<open>
  A Go \<open>error\<close> is carried by its message; \<open>fmt.Println\<close> prints that message.
\<close>

datatype error = Err string

fun Error :: "error \<Rightarrow> string" where
  "Error (Err m) = m"

subsection \<open>\<open>strconv.Itoa\<close>\<close>

text \<open>
  \<open>strconv.Itoa\<close> renders an integer in base ten: the digits of the magnitude, most
  significant first, behind a minus sign when the value is negative. The fields it is
  applied to are Go \<open>int\<close>s; no arithmetic is done on them, so they are modelled as
  integers.
\<close>

definition digit :: "nat \<Rightarrow> char" where
  "digit d = char_of (48 + d)"

fun udec :: "nat \<Rightarrow> string" where
  "udec n = (if n < 10 then [digit n] else udec (n div 10) @ [digit (n mod 10)])"

declare udec.simps [simp del]

definition Itoa :: "int \<Rightarrow> string" where
  "Itoa i = (if i < 0 then CHR ''-'' # udec (nat (- i)) else udec (nat i))"

text \<open>Reading a digit string back, to say what "decimal rendering" means.\<close>

definition digit_val :: "char \<Rightarrow> nat" where
  "digit_val c = of_char c - 48"

definition is_digit :: "char \<Rightarrow> bool" where
  "is_digit c = (48 \<le> (of_char c :: nat) \<and> (of_char c :: nat) \<le> 57)"

definition dec_value :: "string \<Rightarrow> nat" where
  "dec_value s = foldl (\<lambda>acc c. 10 * acc + digit_val c) 0 s"

fun Atoi :: "string \<Rightarrow> int" where
  "Atoi [] = 0"
| "Atoi (c # cs) = (if c = CHR ''-'' then - int (dec_value cs) else int (dec_value (c # cs)))"

subsection \<open>\<open>time.Now().Format("2006-01-02T15:04:05Z")\<close>\<close>

text \<open>
  The wall-clock reading of \<open>time.Now()\<close>, broken down into the fields the layout
  uses. In the layout, \<open>2006\<close> is the year padded to four digits, \<open>01\<close>, \<open>02\<close>,
  \<open>15\<close>, \<open>04\<close> and \<open>05\<close> are month, day, hour, minute and second padded to two, and
  \<open>-\<close>, \<open>T\<close>, \<open>:\<close> and the final \<open>Z\<close> are literal text.
\<close>

record clock =
  year :: nat
  month :: nat
  day :: nat
  hour :: nat
  minute :: nat
  second :: nat

definition appendInt :: "nat \<Rightarrow> nat \<Rightarrow> string" where
  "appendInt x width = replicate (width - length (udec x)) CHR ''0'' @ udec x"

definition Format :: "clock \<Rightarrow> string" where
  "Format t =
     appendInt (year t) 4 @ ''-'' @ appendInt (month t) 2 @ ''-'' @ appendInt (day t) 2 @
     ''T'' @ appendInt (hour t) 2 @ '':'' @ appendInt (minute t) 2 @ '':'' @
     appendInt (second t) 2 @ ''Z''"

definition clock_ok :: "clock \<Rightarrow> bool" where
  "clock_ok t =
     (year t < 10000 \<and> 1 \<le> month t \<and> month t \<le> 12 \<and> 1 \<le> day t \<and> day t \<le> 31 \<and>
      hour t < 24 \<and> minute t < 60 \<and> second t < 60)"

text \<open>The shape \<open>dddd-dd-ddTdd:dd:ddZ\<close>, position by position.\<close>

definition layout_shape :: "string \<Rightarrow> bool" where
  "layout_shape s =
     (length s = 20 \<and>
      list_all is_digit (take 4 s) \<and> s ! 4 = CHR ''-'' \<and>
      list_all is_digit (take 2 (drop 5 s)) \<and> s ! 7 = CHR ''-'' \<and>
      list_all is_digit (take 2 (drop 8 s)) \<and> s ! 10 = CHR ''T'' \<and>
      list_all is_digit (take 2 (drop 11 s)) \<and> s ! 13 = CHR '':'' \<and>
      list_all is_digit (take 2 (drop 14 s)) \<and> s ! 16 = CHR '':'' \<and>
      list_all is_digit (take 2 (drop 17 s)) \<and> s ! 19 = CHR ''Z'')"

section \<open>The request-parameter structs\<close>

text \<open>
  One record per struct of the source, fields in the source's order. The field names
  repeat across the structs, so each is read through its record's name
  (\<open>labelsList.Scope\<close>, \<open>labelCreate.Scope\<close>).
\<close>

record labelsList =
  Name :: string
  Scope :: string
  ProjectID :: int
  Page :: int
  PageSize :: int

record labelCreate =
  ID :: int
  Name :: string
  Description :: string
  Color :: string
  Scope :: string
  ProjectID :: int
  CreationTime :: string
  UpdateTime :: string
  Deleted :: bool

record labelDel =
  ID :: int

record labelGet =
  ID :: int

record labelUpdate =
  ID :: int
  Name :: string
  Description :: string
  Color :: string
  Scope :: string
  ProjectID :: int
  Deleted :: bool

text \<open>The package-level variables the handlers read and write.\<close>

record globals =
  labelslist :: labelsList
  labelcreate :: labelCreate
  labeldel :: labelDel
  labelget :: labelGet
  labelupdate :: labelUpdate

section \<open>The world outside the package\<close>

text \<open>
  What a handler reads from outside \<open>api/labels.go\<close>, as the fields of one record:
  \<open>utils.URLGen\<close>, the outcome of \<open>utils.CookieLoad()\<close>, the clock, the string
  encoder of \<open>encoding/json\<close>, and the answer the server (or the transport) gives to a
  request.
\<close>

record cookie =
  BeegosessionID :: string

datatype verb = GET | POST | PUT | DELETE

record request =
  verb :: verb
  url :: string
  headers :: "(string \<times> string) list"
  body :: "string option"

datatype response = Status nat string | TransportError string

record env =
  URLGen :: "string \<Rightarrow> string"
  CookieLoad :: "error + cookie"
  Now :: clock
  json_string :: "string \<Rightarrow> string"
  Do :: "request \<Rightarrow> response"

text \<open>
  What a handler does to the outside, in order: a line printed by \<open>fmt.Println\<close>, a
  request put on the wire, the callback \<open>utils.PrintStatus\<close> handed the outcome.
\<close>

datatype event = Println string | Http request | PrintStatus response

text \<open>\<open>fmt.Println\<close> separates its operands by one space.\<close>

fun Println_args :: "string list \<Rightarrow> string" where
  "Println_args [] = []"
| "Println_args [a] = a"
| "Println_args (a # b # bs) = a @ '' '' @ Println_args (b # bs)"

text \<open>
  Modelled from the spec: \<open>utils.Request\<close> and \<open>utils.PrintStatus\<close> are not in
  \<open>api/labels.go\<close>. Section 4.2 has the dispatcher perform the call and report the
  resulting status to the operator, with no retry; so \<open>.End(utils.PrintStatus)\<close> is one
  exchange followed by one call of the callback.
\<close>

definition End :: "env \<Rightarrow> request \<Rightarrow> event list" where
  "End e r = [Http r, PrintStatus (Do e r)]"

section \<open>\<open>json.Marshal\<close> of the two body structs\<close>

text \<open>
  \<open>json.Marshal\<close> writes a struct as an object whose members are the exported fields
  in declaration order, each under the name of its \<open>json\<close> tag. The members are kept
  as a list so that the field set can be read off; \<open>json_object\<close> is the text.
\<close>

datatype jvalue = JInt int | JString string | JBool bool

fun json_value :: "(string \<Rightarrow> string) \<Rightarrow> jvalue \<Rightarrow> string" where
  "json_value q (JInt i) = Itoa i"
| "json_value q (JString s) = q s"
| "json_value q (JBool b) = (if b then ''true'' else ''false'')"

definition json_member :: "(string \<Rightarrow> string) \<Rightarrow> string \<times> jvalue \<Rightarrow> string" where
  "json_member q kv = [CHR 0x22] @ fst kv @ [CHR 0x22] @ '':'' @ json_value q (snd kv)"

fun commas :: "string list \<Rightarrow> string" where
  "commas [] = []"
| "commas [a] = a"
| "commas (a # b # bs) = a @ '','' @ commas (b # bs)"

definition json_object :: "(string \<Rightarrow> string) \<Rightarrow> (string \<times> jvalue) list \<Rightarrow> string" where
  "json_object q ms = ''{'' @ commas (map (json_member q) ms) @ ''}''"

definition labelCreate_members :: "labelCreate \<Rightarrow> (string \<times> jvalue) list" where
  "labelCreate_members x =
     [(''id'', JInt (labelCreate.ID x)),
      (''name'', JString (labelCreate.Name x)),
      (''description'', JString (labelCreate.Description x)),
      (''color'', JString (labelCreate.Color x)),
      (''scope'', JString (labelCreate.Scope x)),
      (''project_id'', JInt (labelCreate.ProjectID x)),
      (''creation_time'', JString (labelCreate.CreationTime x)),
      (''update_time'', JString (labelCreate.UpdateTime x)),
      (''deleted'', JBool (labelCreate.Deleted x))]"

definition labelUpdate_members :: "labelUpdate \<Rightarrow> (string \<times> jvalue) list" where
  "labelUpdate_members x =
     [(''id'', JInt (labelUpdate.ID x)),
      (''name'', JString (labelUpdate.Name x)),
      (''description'', JString (labelUpdate.Description x)),
      (''color'', JString (labelUpdate.Color x)),
      (''scope'', JString (labelUpdate.Scope x)),
      (''project_id'', JInt (labelUpdate.ProjectID x)),
      (''deleted'', JBool (labelUpdate.Deleted x))]"

text \<open>
  For a struct of integers, strings and booleans \<open>json.Marshal\<close> has no failing case;
  the result type keeps the error the handlers test for.
\<close>

definition Marshal_labelCreate :: "env \<Rightarrow> labelCreate \<Rightarrow> error + string" where
  "Marshal_labelCreate e x = Inr (json_object (json_string e) (labelCreate_members x))"

definition Marshal_labelUpdate :: "env \<Rightarrow> labelUpdate \<Rightarrow> error + string" where
  "Marshal_labelUpdate e x = Inr (json_object (json_string e) (labelUpdate_members x))"

section \<open>The five handlers\<close>

text \<open>
  Each handler takes the world, the package variables and the base URL, and returns the
  package variables as it leaves them with what it did, in order.
\<close>

definition GetLabels_targetURL :: "labelsList \<Rightarrow> string \<Rightarrow> string" where
  "GetLabels_targetURL x baseURL =
     baseURL @ ''?scope='' @ labelsList.Scope x @
     ''&name='' @ labelsList.Name x @
     ''&project_id='' @ Itoa (labelsList.ProjectID x) @
     ''&page='' @ Itoa (labelsList.Page x) @
     ''&page_size='' @ Itoa (labelsList.PageSize x)"

definition GetLabels :: "env \<Rightarrow> globals \<Rightarrow> string \<Rightarrow> globals \<times> event list" where
  "GetLabels e g baseURL =
     (let targetURL = GetLabels_targetURL (labelslist g) baseURL in
      (g, Println (Println_args [''==> GET'', targetURL]) #
          (case CookieLoad e of
             Inl err \<Rightarrow> [Println (Println_args [''Error:'', Error err])]
           | Inr c \<Rightarrow>
               End e \<lparr>verb = GET, url = targetURL,
                     headers = [(''Cookie'', ''harbor-lang=zh-cn; beegosessionID='' @ BeegosessionID c)],
                     body = None\<rparr>)))"

definition PostLabelCreate :: "env \<Rightarrow> globals \<Rightarrow> string \<Rightarrow> globals \<times> event list" where
  "PostLabelCreate e g0 baseURL =
     (let g = (if labelCreate.CreationTime (labelcreate g0) = [] \<or>
                  labelCreate.UpdateTime (labelcreate g0) = []
               then (let now = Format (Now e) in
                     g0\<lparr>labelcreate :=
                          (labelcreate g0)\<lparr>labelCreate.CreationTime := now,
                                            labelCreate.UpdateTime := now\<rparr>\<rparr>)
               else g0);
          targetURL = baseURL in
      (g, Println (Println_args [''==> POST'', targetURL]) #
          (case CookieLoad e of
             Inl err \<Rightarrow> [Println (Println_args [''Error:'', Error err])]
           | Inr c \<Rightarrow>
               (case Marshal_labelCreate e (labelcreate g) of
                  Inl err \<Rightarrow> [Println (Println_args [''error:'', Error err])]
                | Inr t \<Rightarrow>
                    Println (Println_args [''==> label add:'', t]) #
                    End e \<lparr>verb = POST, url = targetURL,
                           headers = [(''Cookie'', ''harbor-lang=zh-cn; beegosessionID='' @ BeegosessionID c)],
                           body = Some t\<rparr>))))"

definition DeleteLabel :: "env \<Rightarrow> globals \<Rightarrow> string \<Rightarrow> globals \<times> event list" where
  "DeleteLabel e g baseURL =
     (let targetURL = baseURL @ ''/'' @ Itoa (labelDel.ID (labeldel g)) in
      (g, Println (Println_args [''==> DELETE'', targetURL]) #
          (case CookieLoad e of
             Inl err \<Rightarrow> [Println (Println_args [''Error:'', Error err])]
           | Inr c \<Rightarrow>
               End e \<lparr>verb = DELETE, url = targetURL,
                     headers = [(''Cookie'', ''harbor-lang=zh-cn; beegosessionID='' @ BeegosessionID c)],
                     body = None\<rparr>)))"

definition GetLabel :: "env \<Rightarrow> globals \<Rightarrow> string \<Rightarrow> globals \<times> event list" where
  "GetLabel e g baseURL =
     (let targetURL = baseURL @ ''/'' @ Itoa (labelGet.ID (labelget g)) in
      (g, Println (Println_args [''==> GET'', targetURL]) #
          (case CookieLoad e of
             Inl err \<Rightarrow> [Println (Println_args [''Error:'', Error err])]
           | Inr c \<Rightarrow>
               End e \<lparr>verb = GET, url = targetURL,
                     headers = [(''Cookie'', ''harbor-lang=zh-cn; beegosessionID='' @ BeegosessionID c)],
                     body = None\<rparr>)))"

definition PutLabelUpdate :: "env \<Rightarrow> globals \<Rightarrow> string \<Rightarrow> globals \<times> event list" where
  "PutLabelUpdate e g baseURL =
     (let targetURL = baseURL @ ''/'' @ Itoa (labelUpdate.ID (labelupdate g)) in
      (g, Println (Println_args [''==> PUT'', targetURL]) #
          (case CookieLoad e of
             Inl err \<Rightarrow> [Println (Println_args [''Error:'', Error err])]
           | Inr c \<Rightarrow>
               (case Marshal_labelUpdate e (labelupdate g) of
                  Inl err \<Rightarrow> [Println (Println_args [''error:'', Error err])]
                | Inr t \<Rightarrow>
                    Println (Println_args [''==> label add:'', t]) #
                    End e \<lparr>verb = PUT, url = targetURL,
                           headers = [(''Cookie'', ''harbor-lang=zh-cn; beegosessionID='' @ BeegosessionID c),
                                      (''Content-Type'', ''application/json'')],
                           body = Some t\<rparr>))))"

subsection \<open>The \<open>Execute\<close> methods\<close>

text \<open>
  The commands registered by \<open>init\<close>, by the names given to \<open>AddCommand\<close>. Each
  \<open>Execute\<close> ignores its arguments, calls its handler on \<open>utils.URLGen("/api/labels")\<close>
  and returns \<open>nil\<close>, here \<open>None\<close>.
\<close>

datatype command = labels_list | label_create | label_del_by_id | label_get_by_id | label_update

fun Execute :: "command \<Rightarrow> env \<Rightarrow> globals \<Rightarrow> string list
    \<Rightarrow> error option \<times> globals \<times> event list" where
  "Execute labels_list e g args = (None, GetLabels e g (URLGen e ''/api/labels''))"
| "Execute label_create e g args = (None, PostLabelCreate e g (URLGen e ''/api/labels''))"
| "Execute label_del_by_id e g args = (None, DeleteLabel e g (URLGen e ''/api/labels''))"
| "Execute label_get_by_id e g args = (None, GetLabel e g (URLGen e ''/api/labels''))"
| "Execute label_update e g args = (None, PutLabelUpdate e g (URLGen e ''/api/labels''))"

text \<open>The requests of a run.\<close>

fun requests :: "event list \<Rightarrow> request list" where
  "requests [] = []"
| "requests (Http r # es) = r # requests es"
| "requests (_ # es) = requests es"

definition trace :: "command \<Rightarrow> env \<Rightarrow> globals \<Rightarrow> event list" where
  "trace c e g = snd (snd (Execute c e g []))"

section \<open>Flags and the command-line parser\<close>

text \<open>
  The struct tags of the source, as far as they decide which flags must be given: the
  \<open>long\<close> name of each option and whether its tag says \<open>required:"yes"\<close>, in the
  order of the struct.
\<close>

record option_tag =
  long :: string
  required :: bool

fun tags :: "command \<Rightarrow> option_tag list" where
  "tags labels_list =
     [\<lparr>long = ''name'', required = False\<rparr>,
      \<lparr>long = ''scope'', required = True\<rparr>,
      \<lparr>long = ''project_id'', required = False\<rparr>,
      \<lparr>long = ''page'', required = False\<rparr>,
      \<lparr>long = ''page_size'', required = False\<rparr>]"
| "tags label_create =
     [\<lparr>long = ''id'', required = False\<rparr>,
      \<lparr>long = ''name'', required = True\<rparr>,
      \<lparr>long = ''description'', required = True\<rparr>,
      \<lparr>long = ''color'', required = False\<rparr>,
      \<lparr>long = ''scope'', required = False\<rparr>,
      \<lparr>long = ''project_id'', required = False\<rparr>,
      \<lparr>long = ''creation_time'', required = False\<rparr>,
      \<lparr>long = ''update_time'', required = False\<rparr>,
      \<lparr>long = ''deleted'', required = False\<rparr>]"
| "tags label_del_by_id = [\<lparr>long = ''id'', required = True\<rparr>]"
| "tags label_get_by_id = [\<lparr>long = ''id'', required = True\<rparr>]"
| "tags label_update =
     [\<lparr>long = ''id'', required = True\<rparr>,
      \<lparr>long = ''name'', required = True\<rparr>,
      \<lparr>long = ''description'', required = True\<rparr>,
      \<lparr>long = ''color'', required = False\<rparr>,
      \<lparr>long = ''scope'', required = False\<rparr>,
      \<lparr>long = ''project_id'', required = False\<rparr>,
      \<lparr>long = ''deleted'', required = False\<rparr>]"

text \<open>The required options of a command that a command line leaves out.\<close>

definition missing :: "command \<Rightarrow> string list \<Rightarrow> string list" where
  "missing c given = map long (filter (\<lambda>t. required t \<and> long t \<notin> set given) (tags c))"

datatype usage_error = ErrRequired "string list"

text \<open>
  Modelled from the spec: the parser behind \<open>utils.Parser\<close>, and the \<open>main\<close> that
  runs it, are not in \<open>api/labels.go\<close>. Sections 4.1 and 7 have required fields
  validated before dispatch, absence being a usage error that aborts the command. So
  an invocation, given the options present on the command line (each by its long name)
  and the package variables as the flags bind them, either stops with the missing names
  or runs the command's \<open>Execute\<close>.
\<close>

definition Parse :: "command \<Rightarrow> string list \<Rightarrow> env \<Rightarrow> globals
    \<Rightarrow> usage_error + (error option \<times> globals \<times> event list)" where
  "Parse c given e g =
     (if missing c given \<noteq> [] then Inl (ErrRequired (missing c given))
      else Inr (Execute c e g []))"

fun events :: "usage_error + (error option \<times> globals \<times> event list) \<Rightarrow> event list" where
  "events (Inl u) = []"
| "events (Inr r) = snd (snd r)"

section \<open>Vocabulary of the properties\<close>

text \<open>The last path segment of a URL: what follows its last slash.\<close>

definition last_segment :: "string \<Rightarrow> string" where
  "last_segment u = rev (takeWhile (\<lambda>c. c \<noteq> CHR ''/'') (rev u))"

text \<open>The field set the specification documents for a label body.\<close>

definition documented_fields :: "string list" where
  "documented_fields =
     [''id'', ''name'', ''description'', ''color'', ''scope'', ''project_id'',
      ''creation_time'', ''update_time'', ''deleted'']"

text \<open>The value of a header of a request, by name.\<close>

definition header :: "request \<Rightarrow> string \<Rightarrow> string option" where
  "header r k = map_of (headers r) k"

subsection \<open>A concrete world and concrete flags\<close>

text \<open>
  A registry at \<open>https://localhost\<close> that answers every request with status 200, a
  clock reading, and a string encoder for strings that need no escaping. The session
  file's outcome is left open.
\<close>

definition quote_plain :: "string \<Rightarrow> string" where
  "quote_plain s = [CHR 0x22] @ s @ [CHR 0x22]"

definition localhost :: "error + cookie \<Rightarrow> env" where
  "localhost c =
     \<lparr>URLGen = (\<lambda>p. ''https://localhost'' @ p),
      CookieLoad = c,
      Now = \<lparr>year = 2018, month = 7, day = 4, hour = 9, minute = 5, second = 0\<rparr>,
      json_string = quote_plain,
      Do = (\<lambda>r. Status 200 [])\<rparr>"

text \<open>The package variables when every flag holds the default of its tag.\<close>

definition defaults :: globals where
  "defaults =
     \<lparr>labelslist = \<lparr>labelsList.Name = [], Scope = [], ProjectID = 0, Page = 1, PageSize = 10\<rparr>,
      labelcreate = \<lparr>labelCreate.ID = 0, Name = [], Description = [], Color = ''#000000'',
                     Scope = ''g'', ProjectID = 0, CreationTime = [], UpdateTime = [],
                     Deleted = False\<rparr>,
      labeldel = \<lparr>labelDel.ID = 0\<rparr>,
      labelget = \<lparr>labelGet.ID = 0\<rparr>,
      labelupdate = \<lparr>labelUpdate.ID = 0, Name = [], Description = [], Color = ''#000000'',
                     Scope = ''g'', ProjectID = 0, Deleted = False\<rparr>\<rparr>"

section \<open>Facts about the library functions\<close>

lemma is_digit_digit: "d < 10 \<Longrightarrow> is_digit (digit d)"
  by (simp add: is_digit_def digit_def)

lemma digit_val_digit: "d < 10 \<Longrightarrow> digit_val (digit d) = d"
  by (simp add: digit_val_def digit_def)

lemma udec_digits: "list_all is_digit (udec n)"
proof (induction n rule: udec.induct)
  case (1 n)
  show ?case
  proof (cases "n < 10")
    case True
    then show ?thesis by (subst udec.simps) (simp add: is_digit_digit)
  next
    case False
    with 1 show ?thesis by (subst udec.simps) (simp add: is_digit_digit)
  qed
qed

lemma udec_nonempty: "udec n \<noteq> []"
  by (subst udec.simps) simp

lemma dec_value_snoc: "dec_value (s @ [c]) = 10 * dec_value s + digit_val c"
  by (simp add: dec_value_def)

lemma dec_value_udec: "dec_value (udec n) = n"
proof (induction n rule: udec.induct)
  case (1 n)
  show ?case
  proof (cases "n < 10")
    case True
    then show ?thesis by (subst udec.simps) (simp add: dec_value_def digit_val_digit)
  next
    case False
    with 1 show ?thesis by (subst udec.simps) (simp add: dec_value_snoc digit_val_digit)
  qed
qed

lemma is_digit_not_minus: "is_digit c \<Longrightarrow> c \<noteq> CHR ''-''"
  by (auto simp: is_digit_def)

lemma is_digit_not_slash: "is_digit c \<Longrightarrow> c \<noteq> CHR ''/''"
  by (auto simp: is_digit_def)

lemma hd_udec_not_minus: "hd (udec n) \<noteq> CHR ''-''"
  using udec_digits [of n] udec_nonempty [of n]
  by (cases "udec n") (auto dest: is_digit_not_minus)

lemma Atoi_Itoa: "Atoi (Itoa i) = i"
proof (cases "i < 0")
  case True
  then show ?thesis by (simp add: Itoa_def dec_value_udec)
next
  case False
  obtain c cs where u: "udec (nat i) = c # cs"
    using udec_nonempty [of "nat i"] by (cases "udec (nat i)") auto
  have "c \<noteq> CHR ''-''" using hd_udec_not_minus [of "nat i"] u by simp
  moreover have "dec_value (c # cs) = nat i" using dec_value_udec [of "nat i"] u by simp
  ultimately show ?thesis using False u by (simp add: Itoa_def)
qed

lemma slash_notin_udec: "CHR ''/'' \<notin> set (udec n)"
  using udec_digits [of n] by (auto simp: list_all_iff dest: is_digit_not_slash)

lemma slash_notin_Itoa: "CHR ''/'' \<notin> set (Itoa i)"
  by (simp add: Itoa_def slash_notin_udec)

lemma length_udec_1: "n < 10 \<Longrightarrow> length (udec n) = 1"
  by (subst udec.simps) simp

lemma length_udec_2: "n < 100 \<Longrightarrow> length (udec n) \<le> 2"
  by (subst udec.simps) (simp add: length_udec_1)

lemma length_udec_3: "n < 1000 \<Longrightarrow> length (udec n) \<le> 3"
  using length_udec_2 [of "n div 10"] by (subst udec.simps) (simp add: length_udec_1)

lemma length_udec_4: "n < 10000 \<Longrightarrow> length (udec n) \<le> 4"
  using length_udec_3 [of "n div 10"] by (subst udec.simps) (simp add: length_udec_1)

lemma length_appendInt: "length (udec x) \<le> w \<Longrightarrow> length (appendInt x w) = w"
  by (simp add: appendInt_def)

lemma is_digit_zero: "is_digit CHR ''0''"
  by (simp add: is_digit_def)

lemma appendInt_digits: "list_all is_digit (appendInt x w)"
  using udec_digits [of x] by (auto simp: appendInt_def list_all_iff is_digit_zero)

lemma Format_shape:
  assumes "clock_ok t"
  shows "layout_shape (Format t)"
proof -
  define a where "a = appendInt (year t) 4"
  define b where "b = appendInt (month t) 2"
  define c where "c = appendInt (day t) 2"
  define d where "d = appendInt (hour t) 2"
  define m where "m = appendInt (minute t) 2"
  define s where "s = appendInt (second t) 2"
  have la: "length a = 4"
    unfolding a_def using assms by (intro length_appendInt length_udec_4) (simp add: clock_ok_def)
  have lb: "length b = 2"
    unfolding b_def using assms by (intro length_appendInt length_udec_2) (simp add: clock_ok_def)
  have lc: "length c = 2"
    unfolding c_def using assms by (intro length_appendInt length_udec_2) (simp add: clock_ok_def)
  have ld: "length d = 2"
    unfolding d_def using assms by (intro length_appendInt length_udec_2) (simp add: clock_ok_def)
  have lm: "length m = 2"
    unfolding m_def using assms by (intro length_appendInt length_udec_2) (simp add: clock_ok_def)
  have ls: "length s = 2"
    unfolding s_def using assms by (intro length_appendInt length_udec_2) (simp add: clock_ok_def)
  have dg: "list_all is_digit a" "list_all is_digit b" "list_all is_digit c"
    "list_all is_digit d" "list_all is_digit m" "list_all is_digit s"
    by (simp_all add: a_def b_def c_def d_def m_def s_def appendInt_digits)
  have F: "Format t = a @ ''-'' @ b @ ''-'' @ c @ ''T'' @ d @ '':'' @ m @ '':'' @ s @ ''Z''"
    by (simp add: Format_def a_def b_def c_def d_def m_def s_def)
  show ?thesis
    unfolding layout_shape_def F
    using la lb lc ld lm ls dg by (simp add: nth_append)
qed



lemma last_segment_append: "CHR ''/'' \<notin> set s \<Longrightarrow> last_segment (b @ CHR ''/'' # s) = s"
proof -
  assume ns: "CHR ''/'' \<notin> set s"
  have 1: "takeWhile (\<lambda>c. c \<noteq> CHR ''/'') (rev s) = rev s"
    using ns by auto
  have 2: "takeWhile (\<lambda>c. c \<noteq> CHR ''/'') (rev (b @ CHR ''/'' # s)) =
      takeWhile (\<lambda>c. c \<noteq> CHR ''/'') (rev s)"
    by (simp add: takeWhile_tail)
  show ?thesis
    unfolding last_segment_def 2 1 by simp
qed

lemma digit_chars:
  "digit 0 = CHR ''0''" "digit 1 = CHR ''1''" "digit 2 = CHR ''2''" "digit 3 = CHR ''3''"
  "digit 4 = CHR ''4''" "digit 5 = CHR ''5''" "digit 6 = CHR ''6''" "digit 7 = CHR ''7''"
  "digit 8 = CHR ''8''" "digit 9 = CHR ''9''" "digit (Suc 0) = CHR ''1''"
  by (code_simp+)


lemma requests_End: "requests (End e r) = [r]"
  by (simp add: End_def)

section \<open>What every run requests\<close>

text \<open>
  The requests of a run, command by command: none when the session cookie cannot be
  loaded, otherwise exactly the one request the handler builds.
\<close>

lemma requests_trace_cases:
  "requests (trace c e g) =
     (case CookieLoad e of Inl err \<Rightarrow> [] | Inr k \<Rightarrow>
        [case c of
           labels_list \<Rightarrow> \<lparr>verb = GET, url = GetLabels_targetURL (labelslist g) (URLGen e ''/api/labels''),
              headers = [(''Cookie'', ''harbor-lang=zh-cn; beegosessionID='' @ BeegosessionID k)], body = None\<rparr>
         | label_create \<Rightarrow> \<lparr>verb = POST, url = URLGen e ''/api/labels'', headers = [(''Cookie'', ''harbor-lang=zh-cn; beegosessionID='' @ BeegosessionID k)],
              body = Some (json_object (json_string e)
                (labelCreate_members (labelcreate (fst (PostLabelCreate e g (URLGen e ''/api/labels''))))))\<rparr>
         | label_del_by_id \<Rightarrow> \<lparr>verb = DELETE,
              url = URLGen e ''/api/labels'' @ ''/'' @ Itoa (labelDel.ID (labeldel g)),
              headers = [(''Cookie'', ''harbor-lang=zh-cn; beegosessionID='' @ BeegosessionID k)], body = None\<rparr>
         | label_get_by_id \<Rightarrow> \<lparr>verb = GET,
              url = URLGen e ''/api/labels'' @ ''/'' @ Itoa (labelGet.ID (labelget g)),
              headers = [(''Cookie'', ''harbor-lang=zh-cn; beegosessionID='' @ BeegosessionID k)], body = None\<rparr>
         | label_update \<Rightarrow> \<lparr>verb = PUT,
              url = URLGen e ''/api/labels'' @ ''/'' @ Itoa (labelUpdate.ID (labelupdate g)),
              headers = [(''Cookie'', ''harbor-lang=zh-cn; beegosessionID='' @ BeegosessionID k),
                (''Content-Type'', ''application/json'')],
              body = Some (json_object (json_string e) (labelUpdate_members (labelupdate g)))\<rparr>])"
  by (cases c)
    (simp_all add: trace_def GetLabels_def PostLabelCreate_def DeleteLabel_def GetLabel_def
      PutLabelUpdate_def Marshal_labelCreate_def Marshal_labelUpdate_def Let_def requests_End
      split: sum.splits)

text \<open>The text \<open>json.Marshal\<close> gives for the two body structs, written out.\<close>

lemma Marshal_labelCreate_text:
  \<open>Marshal_labelCreate e x = Inr (
     ''{"id":'' @ Itoa (labelCreate.ID x) @
     '',"name":'' @ json_string e (labelCreate.Name x) @
     '',"description":'' @ json_string e (labelCreate.Description x) @
     '',"color":'' @ json_string e (labelCreate.Color x) @
     '',"scope":'' @ json_string e (labelCreate.Scope x) @
     '',"project_id":'' @ Itoa (labelCreate.ProjectID x) @
     '',"creation_time":'' @ json_string e (labelCreate.CreationTime x) @
     '',"update_time":'' @ json_string e (labelCreate.UpdateTime x) @
     '',"deleted":'' @ (if labelCreate.Deleted x then ''true'' else ''false'') @ ''}'')\<close>
  by (simp add: Marshal_labelCreate_def json_object_def labelCreate_members_def json_member_def)

lemma Marshal_labelUpdate_text:
  \<open>Marshal_labelUpdate e x = Inr (
     ''{"id":'' @ Itoa (labelUpdate.ID x) @
     '',"name":'' @ json_string e (labelUpdate.Name x) @
     '',"description":'' @ json_string e (labelUpdate.Description x) @
     '',"color":'' @ json_string e (labelUpdate.Color x) @
     '',"scope":'' @ json_string e (labelUpdate.Scope x) @
     '',"project_id":'' @ Itoa (labelUpdate.ProjectID x) @
     '',"deleted":'' @ (if labelUpdate.Deleted x then ''true'' else ''false'') @ ''}'')\<close>
  by (simp add: Marshal_labelUpdate_def json_object_def labelUpdate_members_def json_member_def)

lemma labelcreate_after:
  "labelcreate (fst (PostLabelCreate e g b)) =
     (if labelCreate.CreationTime (labelcreate g) = [] \<or> labelCreate.UpdateTime (labelcreate g) = []
      then (labelcreate g)\<lparr>labelCreate.CreationTime := Format (Now e),
                            labelCreate.UpdateTime := Format (Now e)\<rparr>
      else labelcreate g)"
  by (simp add: PostLabelCreate_def Let_def)

section \<open>The list query\<close>

lemma GetLabels_spec_example:
  "map url (requests (trace labels_list (localhost (Inr \<lparr>BeegosessionID = ''abc''\<rparr>))
     (defaults\<lparr>labelslist := \<lparr>labelsList.Name = [], Scope = ''g'', ProjectID = 0,
                                Page = 2, PageSize = 5\<rparr>\<rparr>))) =
   [''https://localhost/api/labels?scope=g&name=&project_id=0&page=2&page_size=5'']"
  by (simp add: trace_def GetLabels_def GetLabels_targetURL_def Let_def requests_End
      localhost_def defaults_def Itoa_def udec.simps digit_chars)

text \<open>
  Claim C1. Whatever the list flags hold, \<open>GetLabels\<close> builds its target URL as the
  base URL followed by \<open>?scope=\<close>, the scope, \<open>&name=\<close>, the name, \<open>&project_id=\<close>,
  \<open>&page=\<close> and \<open>&page_size=\<close> with the three integers in decimal: the five keys in
  this order, the values as they are. That URL is the one printed, and the one requested
  once the session cookie is loaded; each integer reads back from its rendering.
\<close>

theorem GetLabels_query_template:
  "(let x = labelslist g;
        t = baseURL @ ''?scope='' @ labelsList.Scope x @ ''&name='' @ labelsList.Name x @
            ''&project_id='' @ Itoa (labelsList.ProjectID x) @
            ''&page='' @ Itoa (labelsList.Page x) @
            ''&page_size='' @ Itoa (labelsList.PageSize x)
    in hd (snd (GetLabels e g baseURL)) = Println (''==> GET '' @ t) \<and>
       map url (requests (snd (GetLabels e g baseURL))) =
         (case CookieLoad e of Inl err \<Rightarrow> [] | Inr c \<Rightarrow> [t]) \<and>
       Atoi (Itoa (labelsList.ProjectID x)) = labelsList.ProjectID x \<and>
       Atoi (Itoa (labelsList.Page x)) = labelsList.Page x \<and>
       Atoi (Itoa (labelsList.PageSize x)) = labelsList.PageSize x)"
  by (simp add: GetLabels_def GetLabels_targetURL_def Let_def requests_End Atoi_Itoa
      split: sum.splits)

text \<open>
  Claim C10. The list operation neither encodes nor checks the name and scope flags:
  for every pair of strings, the requested URL is the base URL, \<open>?scope=\<close>, the scope
  as given, \<open>&name=\<close>, the name as given, and the three integer parameters. In
  particular the two strings stand in the query string unchanged, whatever characters
  they hold.
\<close>

theorem list_query_verbatim:
  "map url (requests (snd (GetLabels e
      (g\<lparr>labelslist := \<lparr>labelsList.Name = nm, Scope = sc, ProjectID = p, Page = pg, PageSize = ps\<rparr>\<rparr>) b))) =
     (case CookieLoad e of Inl err \<Rightarrow> []
      | Inr k \<Rightarrow> [b @ ''?scope='' @ sc @ ''&name='' @ nm @ ''&project_id='' @ Itoa p @
                  ''&page='' @ Itoa pg @ ''&page_size='' @ Itoa ps]) \<and>
   sublist (''?scope='' @ sc @ ''&name='' @ nm @ ''&project_id='')
     (GetLabels_targetURL \<lparr>labelsList.Name = nm, Scope = sc, ProjectID = p, Page = pg, PageSize = ps\<rparr> b)"
proof (rule conjI)
  show "map url (requests (snd (GetLabels e
      (g\<lparr>labelslist := \<lparr>labelsList.Name = nm, Scope = sc, ProjectID = p, Page = pg, PageSize = ps\<rparr>\<rparr>) b))) =
     (case CookieLoad e of Inl err \<Rightarrow> []
      | Inr k \<Rightarrow> [b @ ''?scope='' @ sc @ ''&name='' @ nm @ ''&project_id='' @ Itoa p @
                  ''&page='' @ Itoa pg @ ''&page_size='' @ Itoa ps])"
    by (simp add: GetLabels_def GetLabels_targetURL_def Let_def requests_End split: sum.splits)
next
  have "GetLabels_targetURL \<lparr>labelsList.Name = nm, Scope = sc, ProjectID = p, Page = pg, PageSize = ps\<rparr> b =
      b @ (''?scope='' @ sc @ ''&name='' @ nm @ ''&project_id='') @
        (Itoa p @ ''&page='' @ Itoa pg @ ''&page_size='' @ Itoa ps)"
    by (simp add: GetLabels_targetURL_def)
  then show "sublist (''?scope='' @ sc @ ''&name='' @ nm @ ''&project_id='')
     (GetLabels_targetURL \<lparr>labelsList.Name = nm, Scope = sc, ProjectID = p, Page = pg, PageSize = ps\<rparr> b)"
    unfolding sublist_def by blast
qed

text \<open>A name holding a space and \<open>&\<close>, a scope holding \<open>=\<close>: both go out as they are.\<close>

lemma list_query_injection_example:
  "map url (requests (trace labels_list (localhost (Inr \<lparr>BeegosessionID = ''abc''\<rparr>))
     (defaults\<lparr>labelslist := \<lparr>labelsList.Name = ''a b&page=9'', Scope = ''g=p'', ProjectID = 0,
                                Page = 1, PageSize = 10\<rparr>\<rparr>))) =
   [''https://localhost/api/labels?scope=g=p&name=a b&page=9&project_id=0&page=1&page_size=10'']"
  by (simp add: requests_trace_cases GetLabels_targetURL_def localhost_def defaults_def
      Itoa_def udec.simps digit_chars)

section \<open>Request bodies\<close>

text \<open>
  Claim C2, as the claim states it, fails for the update command: its body has no
  \<open>creation_time\<close> and no \<open>update_time\<close> member. With the flag values of the
  example in the source's comment, the update body holds seven members, which are not
  the documented nine.
\<close>

theorem update_body_fields_counterexample:
  \<open>map body (requests (trace label_update (localhost (Inr \<lparr>BeegosessionID = ''abc''\<rparr>))
     (defaults\<lparr>labelupdate := \<lparr>labelUpdate.ID = 100, Name = ''label-name-100'',
        Description = ''label-description-100'', Color = ''#000000'', Scope = ''g'',
        ProjectID = 0, Deleted = True\<rparr>\<rparr>))) =
     [Some (''{"id":100,"name":"label-name-100","description":"label-description-100",'' @
            ''"color":"#000000","scope":"g","project_id":0,"deleted":true}'')] \<and>
   map fst (labelUpdate_members \<lparr>labelUpdate.ID = 100, Name = ''label-name-100'',
        Description = ''label-description-100'', Color = ''#000000'', Scope = ''g'',
        ProjectID = 0, Deleted = True\<rparr>) =
     [''id'', ''name'', ''description'', ''color'', ''scope'', ''project_id'', ''deleted''] \<and>
   map fst (labelUpdate_members \<lparr>labelUpdate.ID = 100, Name = ''label-name-100'',
        Description = ''label-description-100'', Color = ''#000000'', Scope = ''g'',
        ProjectID = 0, Deleted = True\<rparr>) \<noteq> documented_fields\<close>
  by (simp add: requests_trace_cases localhost_def labelUpdate_members_def documented_fields_def
      json_object_def json_member_def quote_plain_def Itoa_def udec.simps digit_chars)

text \<open>
  Claim C2, amended. For every create invocation the request body is the JSON object of
  exactly the documented fields \<open>id\<close>, \<open>name\<close>, \<open>description\<close>, \<open>color\<close>,
  \<open>scope\<close>, \<open>project_id\<close>, \<open>creation_time\<close>, \<open>update_time\<close>, \<open>deleted\<close>, and
  a \<open>creation_time\<close> or \<open>update_time\<close> left unset holds the current time in the
  layout \<open>2006-01-02T15:04:05Z\<close> when the body is built. For every update invocation
  the body is the JSON object of exactly \<open>id\<close>, \<open>name\<close>, \<open>description\<close>,
  \<open>color\<close>, \<open>scope\<close>, \<open>project_id\<close>, \<open>deleted\<close>: the update struct has no time
  fields, so none is sent and none is defaulted.
\<close>

theorem body_fields:
  "map body (requests (trace label_create e g)) =
     (case CookieLoad e of Inl err \<Rightarrow> []
      | Inr k \<Rightarrow> [Some (json_object (json_string e)
          (labelCreate_members (labelcreate (fst (snd (Execute label_create e g args))))))]) \<and>
   map fst (labelCreate_members (labelcreate (fst (snd (Execute label_create e g args))))) =
     documented_fields \<and>
   (labelCreate.CreationTime (labelcreate g) = [] \<longrightarrow>
      map_of (labelCreate_members (labelcreate (fst (snd (Execute label_create e g args)))))
        ''creation_time'' = Some (JString (Format (Now e)))) \<and>
   (labelCreate.UpdateTime (labelcreate g) = [] \<longrightarrow>
      map_of (labelCreate_members (labelcreate (fst (snd (Execute label_create e g args)))))
        ''update_time'' = Some (JString (Format (Now e)))) \<and>
   (clock_ok (Now e) \<longrightarrow> layout_shape (Format (Now e))) \<and>
   map body (requests (trace label_update e g)) =
     (case CookieLoad e of Inl err \<Rightarrow> []
      | Inr k \<Rightarrow> [Some (json_object (json_string e) (labelUpdate_members (labelupdate g)))]) \<and>
   map fst (labelUpdate_members (labelupdate g)) =
     [''id'', ''name'', ''description'', ''color'', ''scope'', ''project_id'', ''deleted'']"
proof -
  have 1: "map fst (labelCreate_members x) = documented_fields" for x
    by (simp add: labelCreate_members_def documented_fields_def)
  have 2: "map fst (labelUpdate_members y) =
      [''id'', ''name'', ''description'', ''color'', ''scope'', ''project_id'', ''deleted'']" for y
    by (simp add: labelUpdate_members_def)
  have 3: "map_of (labelCreate_members x) ''creation_time'' = Some (JString (labelCreate.CreationTime x))"
    "map_of (labelCreate_members x) ''update_time'' = Some (JString (labelCreate.UpdateTime x))" for x
    by (simp_all add: labelCreate_members_def)
  show ?thesis
    by (simp add: requests_trace_cases 1 2 3 labelcreate_after Format_shape split: sum.splits)
qed

theorem body_fields_witness:
  "clock_ok (Now (localhost (Inr \<lparr>BeegosessionID = ''abc''\<rparr>))) \<and>
   labelCreate.CreationTime (labelcreate defaults) = [] \<and>
   labelCreate.UpdateTime (labelcreate defaults) = [] \<and>
   map_of (labelCreate_members (labelcreate (fst (snd (Execute label_create
      (localhost (Inr \<lparr>BeegosessionID = ''abc''\<rparr>)) defaults [])))))
      ''creation_time'' = Some (JString ''2018-07-04T09:05:00Z'') \<and>
   map_of (labelCreate_members (labelcreate (fst (snd (Execute label_create
      (localhost (Inr \<lparr>BeegosessionID = ''abc''\<rparr>)) defaults [])))))
      ''update_time'' = Some (JString ''2018-07-04T09:05:00Z'') \<and>
   layout_shape ''2018-07-04T09:05:00Z''"
proof -
  have f: "Format (Now (localhost (Inr \<lparr>BeegosessionID = ''abc''\<rparr>))) = ''2018-07-04T09:05:00Z''"
    by (simp add: localhost_def Format_def appendInt_def udec.simps digit_chars)
  have c: "clock_ok (Now (localhost (Inr \<lparr>BeegosessionID = ''abc''\<rparr>)))"
    by (simp add: localhost_def clock_ok_def)
  have d: "labelCreate.CreationTime (labelcreate defaults) = []"
    "labelCreate.UpdateTime (labelcreate defaults) = []"
    by (simp_all add: defaults_def)
  show ?thesis
    using body_fields [of "localhost (Inr \<lparr>BeegosessionID = ''abc''\<rparr>)" defaults "[]"] c d
    by (simp only: f simp_thms)
qed

text \<open>
  Claim C9. In the create operation, when \<open>creation_time\<close> or \<open>update_time\<close> is
  empty, both fields are set to the same current-time string before the struct is
  serialised, so a value given for one of them is lost when the other is empty; when
  both are given, the package variables are left as they were. The body sent is the
  serialisation of the struct after this step.
\<close>

theorem create_times_overwritten_together:
  "(labelCreate.CreationTime (labelcreate g) = [] \<or> labelCreate.UpdateTime (labelcreate g) = [] \<longrightarrow>
      fst (PostLabelCreate e g b) =
        g\<lparr>labelcreate := (labelcreate g)\<lparr>labelCreate.CreationTime := Format (Now e),
                                            labelCreate.UpdateTime := Format (Now e)\<rparr>\<rparr>) \<and>
   (labelCreate.CreationTime (labelcreate g) \<noteq> [] \<and> labelCreate.UpdateTime (labelcreate g) \<noteq> [] \<longrightarrow>
      fst (PostLabelCreate e g b) = g) \<and>
   map body (requests (snd (PostLabelCreate e g b))) =
     (case CookieLoad e of Inl err \<Rightarrow> []
      | Inr k \<Rightarrow> [Some (json_object (json_string e)
          (labelCreate_members (labelcreate (fst (PostLabelCreate e g b)))))])"
  by (simp add: PostLabelCreate_def Let_def Marshal_labelCreate_def requests_End split: sum.splits)

theorem create_times_overwritten_together_witness:
  "(let g = defaults\<lparr>labelcreate := (labelcreate defaults)
                \<lparr>labelCreate.CreationTime := ''2001-02-03T04:05:06Z''\<rparr>\<rparr>;
        g' = fst (PostLabelCreate (localhost (Inr \<lparr>BeegosessionID = ''abc''\<rparr>)) g ''u'')
    in labelCreate.CreationTime (labelcreate g') = ''2018-07-04T09:05:00Z'' \<and>
       labelCreate.UpdateTime (labelcreate g') = ''2018-07-04T09:05:00Z'') \<and>
   (let g = defaults\<lparr>labelcreate := (labelcreate defaults)
                \<lparr>labelCreate.CreationTime := ''2001-02-03T04:05:06Z'',
                 labelCreate.UpdateTime := ''2002-03-04T05:06:07Z''\<rparr>\<rparr>;
        g' = fst (PostLabelCreate (localhost (Inr \<lparr>BeegosessionID = ''abc''\<rparr>)) g ''u'')
    in labelCreate.CreationTime (labelcreate g') = ''2001-02-03T04:05:06Z'' \<and>
       labelCreate.UpdateTime (labelcreate g') = ''2002-03-04T05:06:07Z'')"
proof -
  have f: "Format (Now (localhost (Inr \<lparr>BeegosessionID = ''abc''\<rparr>))) = ''2018-07-04T09:05:00Z''"
    by (simp add: localhost_def Format_def appendInt_def udec.simps digit_chars)
  show ?thesis
    using create_times_overwritten_together [of
        "defaults\<lparr>labelcreate := (labelcreate defaults)
                \<lparr>labelCreate.CreationTime := ''2001-02-03T04:05:06Z''\<rparr>\<rparr>"
        "localhost (Inr \<lparr>BeegosessionID = ''abc''\<rparr>)" "''u''"]
      create_times_overwritten_together [of
        "defaults\<lparr>labelcreate := (labelcreate defaults)
                \<lparr>labelCreate.CreationTime := ''2001-02-03T04:05:06Z'',
                 labelCreate.UpdateTime := ''2002-03-04T05:06:07Z''\<rparr>\<rparr>"
        "localhost (Inr \<lparr>BeegosessionID = ''abc''\<rparr>)" "''u''"]
    by (simp add: f defaults_def Let_def)
qed

section \<open>The session cookie\<close>

text \<open>
  Claim C3. For each of the five commands, when loading the session token fails, the
  run consists of two printed lines, the announcement of the request and \<open>Error:\<close>
  followed by the cause; no request is dispatched, and \<open>Execute\<close> returns \<open>nil\<close>.
\<close>

theorem cookie_failure_stops:
  assumes "CookieLoad e = Inl err"
  shows "requests (trace c e g) = [] \<and>
         (\<exists>l. trace c e g = [Println l, Println (''Error: '' @ Error err)]) \<and>
         fst (Execute c e g args) = None"
  using assms
  by (cases c)
    (simp_all add: trace_def GetLabels_def PostLabelCreate_def DeleteLabel_def GetLabel_def
      PutLabelUpdate_def Let_def)

theorem cookie_failure_stops_witness:
  "CookieLoad (localhost (Inl (Err ''open .cookie.yaml: no such file or directory''))) =
     Inl (Err ''open .cookie.yaml: no such file or directory'') \<and>
   requests (trace label_del_by_id
     (localhost (Inl (Err ''open .cookie.yaml: no such file or directory''))) defaults) = [] \<and>
   trace label_del_by_id
     (localhost (Inl (Err ''open .cookie.yaml: no such file or directory''))) defaults =
     [Println ''==> DELETE https://localhost/api/labels/0'',
      Println ''Error: open .cookie.yaml: no such file or directory'']"
proof -
  have h: "CookieLoad (localhost (Inl (Err ''open .cookie.yaml: no such file or directory''))) =
     Inl (Err ''open .cookie.yaml: no such file or directory'')"
    by (simp add: localhost_def)
  have t: "trace label_del_by_id
     (localhost (Inl (Err ''open .cookie.yaml: no such file or directory''))) defaults =
     [Println ''==> DELETE https://localhost/api/labels/0'',
      Println ''Error: open .cookie.yaml: no such file or directory'']"
    by (simp add: trace_def DeleteLabel_def Let_def localhost_def defaults_def Itoa_def
        udec.simps digit_chars)
  show ?thesis
    using h t cookie_failure_stops [OF h, of label_del_by_id defaults "[]"] by simp
qed

text \<open>
  Claim C6, as the claim states it, fails: the value of the Cookie header is not
  \<open>beegosessionID=<token>\<close> alone. With the token \<open>abc\<close>, the get-by-id request
  carries \<open>harbor-lang=zh-cn; beegosessionID=abc\<close>.
\<close>

theorem cookie_header_counterexample:
  "map (\<lambda>r. header r ''Cookie'')
     (requests (trace label_get_by_id (localhost (Inr \<lparr>BeegosessionID = ''abc''\<rparr>)) defaults)) =
     [Some ''harbor-lang=zh-cn; beegosessionID=abc''] \<and>
   map (\<lambda>r. header r ''Cookie'')
     (requests (trace label_get_by_id (localhost (Inr \<lparr>BeegosessionID = ''abc''\<rparr>)) defaults)) \<noteq>
     [Some (''beegosessionID='' @ ''abc'')]"
  by (simp add: requests_trace_cases localhost_def header_def)

text \<open>
  Claim C6, amended. For every command, the request dispatched carries a Cookie header
  whose value is \<open>harbor-lang=zh-cn; beegosessionID=<token>\<close>, the token being the one
  loaded from the session file: the language cookie first, the session pair last.
\<close>

theorem cookie_header_value:
  assumes "CookieLoad e = Inr k"
  shows "map (\<lambda>r. header r ''Cookie'') (requests (trace c e g)) =
           [Some (''harbor-lang=zh-cn; beegosessionID='' @ BeegosessionID k)] \<and>
         suffix (''beegosessionID='' @ BeegosessionID k)
           (''harbor-lang=zh-cn; beegosessionID='' @ BeegosessionID k)"
  using assms
  by (cases c) (simp_all add: requests_trace_cases header_def suffix_def)

theorem cookie_header_value_witness:
  "map (\<lambda>r. header r ''Cookie'')
     (requests (trace label_update (localhost (Inr \<lparr>BeegosessionID = ''s3cr3t''\<rparr>)) defaults)) =
     [Some ''harbor-lang=zh-cn; beegosessionID=s3cr3t'']"
proof -
  have h: "CookieLoad (localhost (Inr \<lparr>BeegosessionID = ''s3cr3t''\<rparr>)) = Inr \<lparr>BeegosessionID = ''s3cr3t''\<rparr>"
    by (simp add: localhost_def)
  show ?thesis
    using cookie_header_value [OF h, of label_update defaults] by simp
qed

section \<open>Requests by label id\<close>

lemma hd_trace_by_id:
  "hd (trace label_del_by_id e g) =
     Println (''==> DELETE '' @ URLGen e ''/api/labels'' @ ''/'' @ Itoa (labelDel.ID (labeldel g)))"
  "hd (trace label_get_by_id e g) =
     Println (''==> GET '' @ URLGen e ''/api/labels'' @ ''/'' @ Itoa (labelGet.ID (labelget g)))"
  by (simp_all add: trace_def DeleteLabel_def GetLabel_def Let_def)

text \<open>
  Claim C4. For every label id, delete-by-id and get-by-id build their target URL as the
  base URL of \<open>/api/labels\<close>, a slash, and the id in decimal. The id is the last path
  segment of that URL and reads back from it. The URL is the one announced, and the one
  requested once the session cookie is loaded.
\<close>

theorem by_id_url_last_segment:
  "(let u = URLGen e ''/api/labels'' @ ''/'' @ Itoa (labelDel.ID (labeldel g)) in
      hd (trace label_del_by_id e g) = Println (''==> DELETE '' @ u) \<and>
      map url (requests (trace label_del_by_id e g)) =
        (case CookieLoad e of Inl err \<Rightarrow> [] | Inr k \<Rightarrow> [u]) \<and>
      last_segment u = Itoa (labelDel.ID (labeldel g)) \<and>
      Atoi (last_segment u) = labelDel.ID (labeldel g)) \<and>
   (let u = URLGen e ''/api/labels'' @ ''/'' @ Itoa (labelGet.ID (labelget g)) in
      hd (trace label_get_by_id e g) = Println (''==> GET '' @ u) \<and>
      map url (requests (trace label_get_by_id e g)) =
        (case CookieLoad e of Inl err \<Rightarrow> [] | Inr k \<Rightarrow> [u]) \<and>
      last_segment u = Itoa (labelGet.ID (labelget g)) \<and>
      Atoi (last_segment u) = labelGet.ID (labelget g))"
  by (simp add: Let_def requests_trace_cases hd_trace_by_id last_segment_append
      slash_notin_Itoa Atoi_Itoa split: sum.splits)

lemma by_id_example:
  "map url (requests (trace label_del_by_id (localhost (Inr \<lparr>BeegosessionID = ''abc''\<rparr>))
      (defaults\<lparr>labeldel := \<lparr>labelDel.ID = 100\<rparr>\<rparr>))) = [''https://localhost/api/labels/100''] \<and>
   map url (requests (trace label_get_by_id (localhost (Inr \<lparr>BeegosessionID = ''abc''\<rparr>))
      (defaults\<lparr>labelget := \<lparr>labelGet.ID = - 7\<rparr>\<rparr>))) = [''https://localhost/api/labels/-7'']"
  by (simp add: requests_trace_cases localhost_def Itoa_def udec.simps digit_chars)

section \<open>Required flags\<close>

lemma required_flags:
  "map long (filter required (tags labels_list)) = [''scope'']"
  "map long (filter required (tags label_create)) = [''name'', ''description'']"
  "map long (filter required (tags label_del_by_id)) = [''id'']"
  "map long (filter required (tags label_get_by_id)) = [''id'']"
  "map long (filter required (tags label_update)) = [''id'', ''name'', ''description'']"
  by simp_all

lemma missing_mem:
  "f \<in> set (map long (filter required (tags c))) \<Longrightarrow> f \<notin> set given \<Longrightarrow> f \<in> set (missing c given)"
  by (auto simp: missing_def)

text \<open>
  Claim C5. When a flag tagged as required (scope on list; name or description on
  create or update; id on get, delete or update) is absent from the command line, the
  invocation ends in a usage error naming it, before \<open>Execute\<close> runs: nothing is
  printed by the handler and no request is dispatched.
\<close>

theorem required_flag_absent:
  assumes "f \<in> set (map long (filter required (tags c)))" and "f \<notin> set given"
  shows "Parse c given e g = Inl (ErrRequired (missing c given)) \<and>
         f \<in> set (missing c given) \<and>
         events (Parse c given e g) = [] \<and>
         requests (events (Parse c given e g)) = []"
proof -
  have m: "f \<in> set (missing c given)"
    using assms by (rule missing_mem)
  then have "missing c given \<noteq> []"
    by auto
  then have "Parse c given e g = Inl (ErrRequired (missing c given))"
    by (simp add: Parse_def)
  with m show ?thesis
    by simp
qed

theorem required_flag_absent_witness:
  "Parse labels_list [''page'', ''page_size''] (localhost (Inr \<lparr>BeegosessionID = ''abc''\<rparr>)) defaults =
     Inl (ErrRequired [''scope'']) \<and>
   Parse label_update [''id'', ''name''] (localhost (Inr \<lparr>BeegosessionID = ''abc''\<rparr>)) defaults =
     Inl (ErrRequired [''description''])"
proof -
  have 1: "''scope'' \<in> set (map long (filter required (tags labels_list)))"
    by simp
  have 2: "''scope'' \<notin> set [''page'', ''page_size'']"
    by simp
  have 3: "''description'' \<in> set (map long (filter required (tags label_update)))"
    by simp
  have 4: "''description'' \<notin> set [''id'', ''name'']"
    by simp
  show ?thesis
    using required_flag_absent [OF 1 2, of "localhost (Inr \<lparr>BeegosessionID = ''abc''\<rparr>)" defaults]
      required_flag_absent [OF 3 4, of "localhost (Inr \<lparr>BeegosessionID = ''abc''\<rparr>)" defaults]
    by (simp add: missing_def)
qed

section \<open>One request, and a \<open>nil\<close> result\<close>

text \<open>
  Claim C7. Every command run dispatches at most one request. The answer to the request
  has no influence on what is requested: under any other answer, a failure status or a
  transport error included, the requests are the same. When the session cookie is
  loaded the run ends with the single request followed by the report of its outcome.
\<close>

theorem at_most_one_request:
  "length (requests (trace c e g)) \<le> 1 \<and>
   requests (trace c (e\<lparr>Do := d\<rparr>) g) = requests (trace c e g) \<and>
   (case CookieLoad e of
      Inl err \<Rightarrow> requests (trace c e g) = []
    | Inr k \<Rightarrow> (\<exists>r pre. requests (trace c e g) = [r] \<and> requests pre = [] \<and>
        trace c e g = pre @ [Http r, PrintStatus (Do e r)]))"
  by (cases c)
    (simp_all add: trace_def GetLabels_def PostLabelCreate_def DeleteLabel_def GetLabel_def
      PutLabelUpdate_def Marshal_labelCreate_def Marshal_labelUpdate_def Let_def End_def
      split: sum.splits)

text \<open>A transport error is reported once, after the one request.\<close>

lemma remote_failure_example:
  "trace label_get_by_id
     ((localhost (Inr \<lparr>BeegosessionID = ''abc''\<rparr>))\<lparr>Do := \<lambda>r. TransportError ''connection refused''\<rparr>)
     defaults =
   [Println ''==> GET https://localhost/api/labels/0'',
    Http \<lparr>verb = GET, url = ''https://localhost/api/labels/0'',
          headers = [(''Cookie'', ''harbor-lang=zh-cn; beegosessionID=abc'')], body = None\<rparr>,
    PrintStatus (TransportError ''connection refused'')]"
  by (simp add: trace_def GetLabel_def Let_def End_def localhost_def defaults_def Itoa_def
      udec.simps digit_chars)


end
